theory Spec2Isabelle
  imports Main
begin

section \<open>Values of Python and of the toolkit\<close>

text \<open>
  The program is one Python module, \<^verbatim>\<open>main.py\<close>, built on PyQt5. Python integers are
  unbounded (\<^typ>\<open>int\<close>); the toolkit's methods take C \<^verbatim>\<open>int\<close> arguments, and the
  binding raises \<^verbatim>\<open>OverflowError\<close> for a Python integer outside the 32-bit range.
  Calling a method on \<^verbatim>\<open>None\<close> raises \<^verbatim>\<open>AttributeError\<close>.
\<close>

datatype py_error = OverflowError | AttributeError

definition c_int :: "int \<Rightarrow> py_error + int" where
  "c_int n = (if - 2147483648 \<le> n \<and> n \<le> 2147483647 then Inr n else Inl OverflowError)"

subsection \<open>QTimer\<close>

text \<open>
  \<^verbatim>\<open>QTimer()\<close> is inactive; \<^verbatim>\<open>stop()\<close> deactivates it and keeps its interval;
  \<^verbatim>\<open>start(msec)\<close> (re)starts it as a repeating timer of \<^verbatim>\<open>msec\<close> milliseconds.
\<close>

record qtimer =
  isActive :: bool
  interval :: int

definition QTimer :: qtimer where
  "QTimer = \<lparr>isActive = False, interval = 0\<rparr>"

definition QTimer_stop :: "qtimer \<Rightarrow> qtimer" where
  "QTimer_stop t = t\<lparr>isActive := False\<rparr>"

definition QTimer_start :: "qtimer \<Rightarrow> int \<Rightarrow> py_error + qtimer" where
  "QTimer_start t msec =
     (case c_int msec of
        Inl e \<Rightarrow> Inl e
      | Inr m \<Rightarrow> Inr (t\<lparr>isActive := True, interval := m\<rparr>))"

subsection \<open>QWebEngineView\<close>

text \<open>
  Of the embedded view the program uses \<^verbatim>\<open>load\<close>, \<^verbatim>\<open>reload\<close> and \<^verbatim>\<open>title\<close>.
  The model keeps the URL given to \<^verbatim>\<open>load\<close> and counts the calls of \<^verbatim>\<open>reload\<close>.
\<close>

record qweb_engine_view =
  loaded :: string
  reloads :: nat
  title :: string
  native_context_menu :: bool

definition QWebEngineView :: qweb_engine_view where
  "QWebEngineView = \<lparr>loaded = [], reloads = 0, title = [], native_context_menu = True\<rparr>"

definition load :: "qweb_engine_view \<Rightarrow> string \<Rightarrow> qweb_engine_view" where
  "load v u = v\<lparr>loaded := u\<rparr>"

definition reload :: "qweb_engine_view \<Rightarrow> qweb_engine_view" where
  "reload v = v\<lparr>reloads := Suc (reloads v)\<rparr>"

text \<open>\<^verbatim>\<open>QWebEngineView.sizeHint()\<close> is 800 by 600.\<close>

definition sizeHint :: "int \<times> int" where
  "sizeHint = (800, 600)"

subsection \<open>QPoint, QRect and widgets\<close>

text \<open>
  A \<^verbatim>\<open>QRect\<close> stores its left, top, right and bottom coordinates \<^verbatim>\<open>x1, y1, x2, y2\<close>;
  \<^verbatim>\<open>QRect(x, y, w, h)\<close> has \<^verbatim>\<open>x2 = x + w - 1\<close> and \<^verbatim>\<open>y2 = y + h - 1\<close>. Each corner
  setter overwrites the two coordinates of its corner.
\<close>

record qpoint =
  xp :: int
  yp :: int

record qrect =
  x1 :: int
  y1 :: int
  x2 :: int
  y2 :: int

definition QRect :: "int \<Rightarrow> int \<Rightarrow> int \<Rightarrow> int \<Rightarrow> qrect" where
  "QRect x y w h = \<lparr>x1 = x, y1 = y, x2 = x + w - 1, y2 = y + h - 1\<rparr>"

definition rect_width :: "qrect \<Rightarrow> int" where
  "rect_width r = x2 r - x1 r + 1"

definition rect_height :: "qrect \<Rightarrow> int" where
  "rect_height r = y2 r - y1 r + 1"

definition topLeft :: "qrect \<Rightarrow> qpoint" where
  "topLeft r = \<lparr>xp = x1 r, yp = y1 r\<rparr>"

definition topRight :: "qrect \<Rightarrow> qpoint" where
  "topRight r = \<lparr>xp = x2 r, yp = y1 r\<rparr>"

definition bottomLeft :: "qrect \<Rightarrow> qpoint" where
  "bottomLeft r = \<lparr>xp = x1 r, yp = y2 r\<rparr>"

definition bottomRight :: "qrect \<Rightarrow> qpoint" where
  "bottomRight r = \<lparr>xp = x2 r, yp = y2 r\<rparr>"

definition setBottomRight :: "qrect \<Rightarrow> qpoint \<Rightarrow> qrect" where
  "setBottomRight r p = r\<lparr>x2 := xp p, y2 := yp p\<rparr>"

definition setBottomLeft :: "qrect \<Rightarrow> qpoint \<Rightarrow> qrect" where
  "setBottomLeft r p = r\<lparr>x1 := xp p, y2 := yp p\<rparr>"

definition setTopRight :: "qrect \<Rightarrow> qpoint \<Rightarrow> qrect" where
  "setTopRight r p = r\<lparr>x2 := xp p, y1 := yp p\<rparr>"

definition setTopLeft :: "qrect \<Rightarrow> qpoint \<Rightarrow> qrect" where
  "setTopLeft r p = r\<lparr>x1 := xp p, y1 := yp p\<rparr>"

datatype corner = TopLeftCorner | TopRightCorner | BottomLeftCorner | BottomRightCorner

datatype mouse_button = LeftButton | RightButton | MidButton

record qmouse_event =
  buttons :: "mouse_button set"
  globalPos :: qpoint

text \<open>
  Widgets are objects with identity: a widget store is a list of \<^verbatim>\<open>QWidget\<close> objects and
  a reference is an index into it. \<^verbatim>\<open>parent()\<close> is the widget given to the constructor,
  \<^verbatim>\<open>None\<close> for \<^verbatim>\<open>QWidget()\<close>. A new widget without a parent has the geometry
  \<^verbatim>\<open>QRect(0, 0, 640, 480)\<close>, one with a parent \<^verbatim>\<open>QRect(0, 0, 100, 30)\<close>.
\<close>

record qwidget =
  wparent :: "nat option"
  geometry :: qrect

definition QWidget :: "nat option \<Rightarrow> qwidget" where
  "QWidget p =
     \<lparr>wparent = p,
      geometry = (case p of None \<Rightarrow> QRect 0 0 640 480 | Some q \<Rightarrow> QRect 0 0 100 30)\<rparr>"

text \<open>
  \<^verbatim>\<open>setGeometry\<close> moves the widget to the rectangle's top-left corner and gives it the
  rectangle's size, a negative width or height becoming 0.
\<close>

definition setGeometry :: "qwidget list \<Rightarrow> nat \<Rightarrow> qrect \<Rightarrow> qwidget list" where
  "setGeometry ws w r =
     ws[w := (ws ! w)\<lparr>geometry :=
                QRect (x1 r) (y1 r) (max 0 (rect_width r)) (max 0 (rect_height r))\<rparr>]"

text \<open>
  \<^verbatim>\<open>adjustSize()\<close> of a top-level widget resizes it to its size hint, bounded by two
  thirds of the screen (\<open>scr\<close>, width and height).
\<close>

definition adjustSize :: "nat \<times> nat \<Rightarrow> int \<times> int \<Rightarrow> qwidget \<Rightarrow> qwidget" where
  "adjustSize scr hint w =
     w\<lparr>geometry :=
         QRect (x1 (geometry w)) (y1 (geometry w))
           (min (fst hint) (int (fst scr) * 2 div 3))
           (min (snd hint) (int (snd scr) * 2 div 3))\<rparr>"

section \<open>SizeGrip\<close>

record size_grip =
  grip_parent :: "nat option"
  corner :: corner
  fixed_size :: "int \<times> int"

definition SizeGrip_init :: "nat option \<Rightarrow> corner \<Rightarrow> size_grip" where
  "SizeGrip_init parent c = \<lparr>grip_parent = parent, corner = c, fixed_size = (10, 10)\<rparr>"

text \<open>
  \<^verbatim>\<open>mouseMoveEvent\<close>: with exactly the left button held, the handler takes
  \<^verbatim>\<open>self.parent().parent()\<close>, reads its geometry, moves the corner the grip is bound to
  to \<^verbatim>\<open>event.globalPos()\<close> and writes the geometry back. With any other button state it
  does nothing.
\<close>

definition mouseMoveEvent ::
  "qwidget list \<Rightarrow> size_grip \<Rightarrow> qmouse_event \<Rightarrow> py_error + qwidget list" where
  "mouseMoveEvent ws self event =
     (if buttons event = {LeftButton} then
        (case grip_parent self of
           None \<Rightarrow> Inl AttributeError
         | Some c \<Rightarrow>
            (case wparent (ws ! c) of
               None \<Rightarrow> Inl AttributeError
             | Some parent \<Rightarrow>
                (let new_geom = geometry (ws ! parent);
                     pos = globalPos event;
                     new_geom =
                       (case corner self of
                          BottomRightCorner \<Rightarrow> setBottomRight new_geom pos
                        | BottomLeftCorner \<Rightarrow> setBottomLeft new_geom pos
                        | TopRightCorner \<Rightarrow> setTopRight new_geom pos
                        | TopLeftCorner \<Rightarrow> setTopLeft new_geom pos)
                 in Inr (setGeometry ws parent new_geom))))
      else Inr ws)"

section \<open>WebPageItem\<close>

text \<open>
  A \<^verbatim>\<open>WebPageItem\<close> owns its timer, its container widget, the web view and four grips
  whose parent is the container. The container is created by \<^verbatim>\<open>QWidget()\<close>, so it has
  no parent, and \<^verbatim>\<open>setWidget\<close> embeds it as the top-level widget it is: the proxy item is
  not a widget and does not become the parent of one. Embedding adjusts the container's
  size to the hint of its layout, which holds the web view alone and has no margins.
  The timer's \<^verbatim>\<open>timeout\<close> signal is connected to \<^verbatim>\<open>refresh_page\<close> once, in the
  constructor. The screen \<open>scr\<close> is the environment's.
\<close>

record web_page_item =
  url :: string
  refresh_interval :: int
  refresh_timer :: qtimer
  widgets :: "qwidget list"
  container :: nat
  web_view :: qweb_engine_view
  size_grips :: "size_grip list"
  zValue :: int
  pos :: "int \<times> int"
  ItemIsMovable :: bool
  ItemIsSelectable :: bool

definition WebPageItem_init :: "nat \<times> nat \<Rightarrow> string \<Rightarrow> web_page_item" where
  "WebPageItem_init scr u =
     \<lparr>url = u,
      refresh_interval = 0,
      refresh_timer = QTimer,
      widgets = [adjustSize scr sizeHint (QWidget None)],
      container = 0,
      web_view = (load QWebEngineView u)\<lparr>native_context_menu := False\<rparr>,
      size_grips =
        [SizeGrip_init (Some 0) BottomRightCorner,
         SizeGrip_init (Some 0) BottomLeftCorner,
         SizeGrip_init (Some 0) TopRightCorner,
         SizeGrip_init (Some 0) TopLeftCorner],
      zValue = 1,
      pos = (0, 0),
      ItemIsMovable = True,
      ItemIsSelectable = True\<rparr>"

definition refresh_page :: "web_page_item \<Rightarrow> web_page_item" where
  "refresh_page self = self\<lparr>web_view := reload (web_view self)\<rparr>"

text \<open>
  \<^verbatim>\<open>set_refresh_interval\<close> stores the value, stops the timer and, for a positive value,
  starts it with \<^verbatim>\<open>seconds * 1000\<close>. An exception leaves the object as mutated so far:
  the result is the object together with the exception raised, if any.
\<close>

definition set_refresh_interval :: "web_page_item \<Rightarrow> int \<Rightarrow> web_page_item \<times> py_error option" where
  "set_refresh_interval self seconds =
     (let self = self\<lparr>refresh_interval := seconds\<rparr>;
          self = self\<lparr>refresh_timer := QTimer_stop (refresh_timer self)\<rparr>
      in if seconds > 0 then
           (case QTimer_start (refresh_timer self) (seconds * 1000) of
              Inl e \<Rightarrow> (self, Some e)
            | Inr t \<Rightarrow> (self\<lparr>refresh_timer := t\<rparr>, None))
         else (self, None))"

definition get_title :: "web_page_item \<Rightarrow> string" where
  "get_title self = title (web_view self)"

text \<open>The \<^verbatim>\<open>timeout\<close> signal of the item's timer: only an active timer emits it.\<close>

definition timeout :: "web_page_item \<Rightarrow> web_page_item" where
  "timeout self = (if isActive (refresh_timer self) then refresh_page self else self)"

section \<open>Canvas\<close>

text \<open>
  \<^verbatim>\<open>WebPageItem\<close> objects have identity too: the application and the scene refer to the
  same item. The object store is a list, a reference is an index, and an entry is the
  object or \<open>None\<close> once the object is destroyed. A scene is the list of the references
  it holds: \<^verbatim>\<open>addItem\<close> adds one, \<^verbatim>\<open>removeItem\<close> takes it out and hands the object
  back to Python without touching it.
\<close>

record canvas =
  scene :: "nat list"
  width :: nat
  height :: nat

definition Canvas_init :: "nat \<Rightarrow> nat \<Rightarrow> canvas" where
  "Canvas_init w h = \<lparr>scene = [], width = w, height = h\<rparr>"

definition addItem :: "nat list \<Rightarrow> nat \<Rightarrow> nat list" where
  "addItem sc item = (if item \<in> set sc then sc else sc @ [item])"

definition removeItem :: "nat list \<Rightarrow> nat \<Rightarrow> nat list" where
  "removeItem sc item = removeAll item sc"

text \<open>
  \<^verbatim>\<open>random.randint(a, b)\<close> with \<^verbatim>\<open>a \<le> b\<close>: a value of \<^verbatim>\<open>[a, b]\<close>, here chosen
  by a number \<open>r\<close> that the caller supplies.
\<close>

definition randint :: "int \<Rightarrow> int \<Rightarrow> nat \<Rightarrow> int" where
  "randint a b r = a + int r mod (b - a + 1)"

definition setPos :: "web_page_item \<Rightarrow> int \<Rightarrow> int \<Rightarrow> web_page_item" where
  "setPos item x y = item\<lparr>pos := (x, y)\<rparr>"

definition add_web_page ::
  "nat \<times> nat \<Rightarrow> web_page_item option list \<Rightarrow> canvas \<Rightarrow> string \<Rightarrow> nat \<times> nat \<Rightarrow>
     web_page_item option list \<times> canvas \<times> nat" where
  "add_web_page scr objs self u rnd =
     (let page = length objs;
          objs = objs @ [Some (WebPageItem_init scr u)];
          self = self\<lparr>scene := addItem (scene self) page\<rparr>;
          objs = objs[page := map_option
                   (\<lambda>p. setPos p
                      (randint 0 (int (width self) div 2) (fst rnd))
                      (randint 0 (int (height self) div 2) (snd rnd)))
                   (objs ! page)]
      in (objs, self, page))"

section \<open>RefreshSettingsDialog\<close>

text \<open>
  A \<^verbatim>\<open>QSpinBox\<close> starts with the range \<^verbatim>\<open>[0, 99]\<close> and the value 0. \<^verbatim>\<open>setRange\<close>
  and \<^verbatim>\<open>setValue\<close> keep the value inside the range.
\<close>

record qspinbox =
  minimum :: int
  maximum :: int
  spin_value :: int
  suffix :: string

definition QSpinBox :: qspinbox where
  "QSpinBox = \<lparr>minimum = 0, maximum = 99, spin_value = 0, suffix = []\<rparr>"

definition bound :: "qspinbox \<Rightarrow> int \<Rightarrow> int" where
  "bound sb v = (if v < minimum sb then minimum sb else if maximum sb < v then maximum sb else v)"

definition setRange :: "qspinbox \<Rightarrow> int \<Rightarrow> int \<Rightarrow> py_error + qspinbox" where
  "setRange sb mn mx =
     (case c_int mn of
        Inl e \<Rightarrow> Inl e
      | Inr lo \<Rightarrow>
         (case c_int mx of
            Inl e \<Rightarrow> Inl e
          | Inr hi \<Rightarrow>
             (let sb = sb\<lparr>minimum := lo, maximum := (if hi < lo then lo else hi)\<rparr>
              in Inr (sb\<lparr>spin_value := bound sb (spin_value sb)\<rparr>))))"

definition setValue :: "qspinbox \<Rightarrow> int \<Rightarrow> py_error + qspinbox" where
  "setValue sb v =
     (case c_int v of
        Inl e \<Rightarrow> Inl e
      | Inr n \<Rightarrow> Inr (sb\<lparr>spin_value := bound sb n\<rparr>))"

record refresh_settings_dialog =
  windowTitle :: string
  spin_box :: qspinbox

definition RefreshSettingsDialog_init :: "int \<Rightarrow> py_error + refresh_settings_dialog" where
  "RefreshSettingsDialog_init current_interval =
     (case setRange QSpinBox 0 3600 of
        Inl e \<Rightarrow> Inl e
      | Inr sb \<Rightarrow>
         (case setValue sb current_interval of
            Inl e \<Rightarrow> Inl e
          | Inr sb \<Rightarrow>
             Inr \<lparr>windowTitle = ''Refresh Settings'',
                  spin_box = sb\<lparr>suffix := '' seconds''\<rparr>\<rparr>))"

definition get_interval :: "refresh_settings_dialog \<Rightarrow> int" where
  "get_interval self = spin_value (spin_box self)"

text \<open>
  \<^verbatim>\<open>exec_()\<close> blocks until the user closes the dialog. What the user does is an input:
  the values entered into the spin box, in order (the widget keeps each inside its
  range), and the way the dialog is closed. Ok is connected to \<^verbatim>\<open>accept\<close>, Cancel to
  \<^verbatim>\<open>reject\<close>; closing the window rejects as well.
\<close>

datatype dialog_code = Rejected | Accepted

datatype dialog_button = ClickOk | ClickCancel | CloseWindow

definition user_edit :: "refresh_settings_dialog \<Rightarrow> int \<Rightarrow> refresh_settings_dialog" where
  "user_edit d v = d\<lparr>spin_box := (spin_box d)\<lparr>spin_value := bound (spin_box d) v\<rparr>\<rparr>"

definition exec_dialog ::
  "refresh_settings_dialog \<Rightarrow> int list \<Rightarrow> dialog_button \<Rightarrow> refresh_settings_dialog \<times> dialog_code" where
  "exec_dialog d edits b =
     (foldl user_edit d edits,
      (case b of ClickOk \<Rightarrow> Accepted | ClickCancel \<Rightarrow> Rejected | CloseWindow \<Rightarrow> Rejected))"

text \<open>The spin box of the dialog has the range \<open>[0, 3600]\<close> and its value inside.\<close>

definition spin_box_ranged :: "refresh_settings_dialog \<Rightarrow> bool" where
  "spin_box_ranged d =
     (minimum (spin_box d) = 0 \<and> maximum (spin_box d) = 3600 \<and>
      0 \<le> spin_value (spin_box d) \<and> spin_value (spin_box d) \<le> 3600)"

section \<open>BrowserCanvasApp\<close>

record browser_canvas_app =
  objects :: "web_page_item option list"
  canvas :: canvas
  url_input :: string
  current_page :: "nat option"

definition BrowserCanvasApp_init :: "nat \<Rightarrow> nat \<Rightarrow> browser_canvas_app" where
  "BrowserCanvasApp_init w h =
     \<lparr>objects = [], canvas = Canvas_init w h, url_input = [], current_page = None\<rparr>"

definition startswith :: "string \<Rightarrow> string list \<Rightarrow> bool" where
  "startswith s ps = list_ex (\<lambda>p. take (length p) s = p) ps"

definition add_new_page ::
  "nat \<times> nat \<Rightarrow> browser_canvas_app \<Rightarrow> nat \<times> nat \<Rightarrow> browser_canvas_app" where
  "add_new_page scr self rnd =
     (let u = url_input self;
          u = (if \<not> startswith u [''http://'', ''https://''] then ''https://'' @ u else u);
          (objs, cv, page) = add_web_page scr (objects self) (canvas self) u rnd
      in self\<lparr>objects := objs, canvas := cv, url_input := []\<rparr>)"

text \<open>
  An item is referenced by the scene that holds it and by \<^verbatim>\<open>self.current_page\<close>; the
  menu, its actions and the dialog are locals that are gone when their method returns.
  An item that loses its last reference is destroyed, and its timer with it.
  \<open>release self j\<close> is the state after a reference to \<open>j\<close> was dropped.
\<close>

definition release :: "browser_canvas_app \<Rightarrow> nat \<Rightarrow> browser_canvas_app" where
  "release self j =
     (if j \<in> set (scene (canvas self)) \<or> current_page self = Some j then self
      else self\<lparr>objects := (objects self)[j := None]\<rparr>)"

text \<open>
  \<^verbatim>\<open>show_refresh_settings\<close>. The current page is referenced, hence alive: the branch for
  a destroyed object is never taken.
\<close>

definition show_refresh_settings ::
  "browser_canvas_app \<Rightarrow> int list \<Rightarrow> dialog_button \<Rightarrow> browser_canvas_app \<times> py_error option" where
  "show_refresh_settings self edits b =
     (case current_page self of
        None \<Rightarrow> (self, None)
      | Some page \<Rightarrow>
         (case objects self ! page of
            None \<Rightarrow> (self, None)
          | Some cur \<Rightarrow>
             (case RefreshSettingsDialog_init (refresh_interval cur) of
                Inl e \<Rightarrow> (self, Some e)
              | Inr dialog \<Rightarrow>
                 (let (dialog, code) = exec_dialog dialog edits b
                  in if code = Accepted then
                       (let interval = get_interval dialog;
                            (item, err) = set_refresh_interval cur interval
                        in (self\<lparr>objects := (objects self)[page := Some item]\<rparr>, err))
                     else (self, None)))))"

text \<open>
  \<^verbatim>\<open>show_context_menu\<close>: the hit test is the toolkit's; \<open>hit\<close> is the item under the
  cursor, which is an item of the scene or nothing. \<open>choice\<close> is the menu entry the user
  triggers, if any, with the user's interaction for the settings dialog. Binding
  \<^verbatim>\<open>self.current_page\<close> to the item drops the reference to the page it held before.
\<close>

datatype menu_choice = RefreshNow | AutoRefreshSettings "int list" dialog_button | ClosePage

definition itemAt :: "nat list \<Rightarrow> nat option \<Rightarrow> nat option" where
  "itemAt sc hit = (case hit of None \<Rightarrow> None | Some i \<Rightarrow> if i \<in> set sc then Some i else None)"

definition show_context_menu ::
  "browser_canvas_app \<Rightarrow> nat option \<Rightarrow> menu_choice option \<Rightarrow> browser_canvas_app \<times> py_error option" where
  "show_context_menu self hit choice =
     (case itemAt (scene (canvas self)) hit of
        None \<Rightarrow> (self, None)
      | Some item \<Rightarrow>
         (let old = current_page self;
              self = self\<lparr>current_page := Some item\<rparr>;
              self = (case old of None \<Rightarrow> self | Some j \<Rightarrow> release self j)
          in case choice of
               None \<Rightarrow> (self, None)
             | Some RefreshNow \<Rightarrow>
                 (self\<lparr>objects :=
                    (objects self)[item := map_option refresh_page (objects self ! item)]\<rparr>, None)
             | Some (AutoRefreshSettings edits b) \<Rightarrow> show_refresh_settings self edits b
             | Some ClosePage \<Rightarrow>
                 (self\<lparr>canvas := (canvas self)\<lparr>scene := removeItem (scene (canvas self)) item\<rparr>\<rparr>,
                  None)))"

text \<open>The timer of the item \<open>i\<close> fires; a destroyed item has no timer.\<close>

definition timer_event :: "browser_canvas_app \<Rightarrow> nat \<Rightarrow> browser_canvas_app" where
  "timer_event self i =
     (if i < length (objects self)
      then self\<lparr>objects := (objects self)[i := map_option timeout (objects self ! i)]\<rparr>
      else self)"

section \<open>Sessions\<close>

text \<open>
  What happens to the running application: the user edits the URL field, adds a page
  (Enter or the toolbar action), opens the context menu somewhere and possibly triggers
  an entry, or the timer of an item fires. Each event is dispatched on its own: an
  exception ends the handling of that event and leaves the objects as they are then.
\<close>

datatype event =
    TypeUrl string
  | AddPage "nat \<times> nat"
  | ContextMenu "nat option" "menu_choice option"
  | TimerFires nat

fun handle :: "nat \<times> nat \<Rightarrow> browser_canvas_app \<Rightarrow> event \<Rightarrow> browser_canvas_app" where
  "handle scr self (TypeUrl t) = self\<lparr>url_input := t\<rparr>"
| "handle scr self (AddPage rnd) = add_new_page scr self rnd"
| "handle scr self (ContextMenu hit choice) = fst (show_context_menu self hit choice)"
| "handle scr self (TimerFires i) = timer_event self i"

definition run :: "nat \<times> nat \<Rightarrow> browser_canvas_app \<Rightarrow> event list \<Rightarrow> browser_canvas_app" where
  "run scr self evs = foldl (handle scr) self evs"

text \<open>The two halves of the state invariant of the data model, and the invariant.\<close>

definition timer_invariant :: "web_page_item \<Rightarrow> bool" where
  "timer_invariant p = (isActive (refresh_timer p) = (0 < refresh_interval p))"

definition range_invariant :: "web_page_item \<Rightarrow> bool" where
  "range_invariant p = (0 \<le> refresh_interval p \<and> refresh_interval p \<le> 3600)"

definition state_invariant :: "web_page_item \<Rightarrow> bool" where
  "state_invariant p = (range_invariant p \<and> timer_invariant p)"

text \<open>\<open>live P obj\<close>: the object, unless destroyed, satisfies \<open>P\<close>.\<close>

definition live :: "(web_page_item \<Rightarrow> bool) \<Rightarrow> web_page_item option \<Rightarrow> bool" where
  "live P obj = (case obj of None \<Rightarrow> True | Some p \<Rightarrow> P p)"

section \<open>Example objects\<close>

definition example_page :: web_page_item where
  "example_page = WebPageItem_init (800, 600) ''https://example.com''"

text \<open>The first page of the session below, once its timer runs every 5 seconds.\<close>

definition example_page_refreshing :: web_page_item where
  "example_page_refreshing =
     (setPos example_page 3 4)
       \<lparr>refresh_interval := 5, refresh_timer := \<lparr>isActive = True, interval = 5000\<rparr>\<rparr>"

text \<open>
  A session on a screen of 800 by 600: the user enters \<^verbatim>\<open>example.com\<close> and adds the
  page; opens the context menu on it, sets the refresh interval to 5 seconds in the
  dialog and confirms; adds a second page, \<^verbatim>\<open>https://example.org\<close>. Then the user
  closes the first page through its context menu.
\<close>

definition example_events :: "event list" where
  "example_events =
     [TypeUrl ''example.com'', AddPage (3, 4),
      ContextMenu (Some 0) (Some (AutoRefreshSettings [5] ClickOk)),
      TypeUrl ''https://example.org'', AddPage (5, 6)]"

definition example_app :: browser_canvas_app where
  "example_app = run (800, 600) (BrowserCanvasApp_init 1200 800) example_events"


section \<open>The refresh interval setter\<close>

lemma set_refresh_interval_stop:
  "seconds \<le> 0 \<Longrightarrow>
     set_refresh_interval self seconds =
       (self\<lparr>refresh_interval := seconds,
             refresh_timer := (refresh_timer self)\<lparr>isActive := False\<rparr>\<rparr>, None)"
  by (simp add: set_refresh_interval_def QTimer_stop_def)

lemma set_refresh_interval_start:
  "0 < seconds \<Longrightarrow> seconds \<le> 2147483 \<Longrightarrow>
     set_refresh_interval self seconds =
       (self\<lparr>refresh_interval := seconds,
             refresh_timer := (refresh_timer self)\<lparr>isActive := True, interval := seconds * 1000\<rparr>\<rparr>,
        None)"
  by (simp add: set_refresh_interval_def QTimer_stop_def QTimer_start_def c_int_def)

lemma set_refresh_interval_overflow:
  "2147483 < seconds \<Longrightarrow>
     set_refresh_interval self seconds =
       (self\<lparr>refresh_interval := seconds,
             refresh_timer := (refresh_timer self)\<lparr>isActive := False\<rparr>\<rparr>, Some OverflowError)"
  by (simp add: set_refresh_interval_def QTimer_stop_def QTimer_start_def c_int_def)

text \<open>
  C9. For every integer \<open>seconds \<le> 0\<close>, negative values included,
  \<^verbatim>\<open>set_refresh_interval(seconds)\<close> raises nothing: it stores \<open>seconds\<close> as the refresh
  interval, leaves the timer stopped (its interval untouched: no timer is started) and
  changes nothing else.
\<close>

theorem set_refresh_interval_nonpositive:
  "seconds \<le> 0 \<Longrightarrow>
     set_refresh_interval self seconds =
       (self\<lparr>refresh_interval := seconds,
             refresh_timer := (refresh_timer self)\<lparr>isActive := False\<rparr>\<rparr>, None)"
  by (rule set_refresh_interval_stop)

text \<open>At \<open>- 5\<close>, on an item whose timer runs with a period of 5 seconds.\<close>

theorem set_refresh_interval_nonpositive_witness:
  "(- 5 :: int) \<le> 0 \<and>
   isActive (refresh_timer (fst (set_refresh_interval example_page 5))) \<and>
   set_refresh_interval (fst (set_refresh_interval example_page 5)) (- 5) =
     (example_page\<lparr>refresh_interval := - 5,
                    refresh_timer := \<lparr>isActive = False, interval = 5000\<rparr>\<rparr>, None)"
proof -
  have h: "(- 5 :: int) \<le> 0" by simp
  have r: "set_refresh_interval example_page 5 =
       (example_page\<lparr>refresh_interval := 5,
             refresh_timer := (refresh_timer example_page)\<lparr>isActive := True, interval := 5 * 1000\<rparr>\<rparr>,
        None)"
    by (rule set_refresh_interval_start) simp_all
  from set_refresh_interval_nonpositive [OF h, of "fst (set_refresh_interval example_page 5)"]
  show ?thesis by (simp add: r)
qed

text \<open>
  C3 as stated fails for large values: \<open>2147484 * 1000\<close> does not fit the C \<^verbatim>\<open>int\<close> that
  \<^verbatim>\<open>QTimer.start\<close> takes. The call stores the interval, stops the timer and raises
  \<^verbatim>\<open>OverflowError\<close>: no timer runs afterwards.
\<close>

theorem set_refresh_interval_overflow_counterexample:
  "(0 :: int) \<le> 2147484 \<and>
   set_refresh_interval example_page 2147484 =
     (example_page\<lparr>refresh_interval := 2147484\<rparr>, Some OverflowError) \<and>
   \<not> isActive (refresh_timer (fst (set_refresh_interval example_page 2147484)))"
  by (simp add: set_refresh_interval_overflow)
     (simp add: example_page_def WebPageItem_init_def QTimer_def)

text \<open>
  C3, amended. For every integer \<open>seconds\<close> with \<open>0 \<le> seconds \<le> 2147483\<close>,
  \<^verbatim>\<open>set_refresh_interval(seconds)\<close> raises nothing and stores \<open>seconds\<close>; the timer runs
  afterwards exactly if \<open>seconds > 0\<close>, then with the period \<open>seconds * 1000\<close> ms whatever
  it was before, and its firing calls \<^verbatim>\<open>refresh_page\<close>; for \<open>seconds = 0\<close> no timer fires;
  nothing but the interval and the timer changes.
\<close>

theorem set_refresh_interval_restarts:
  "0 \<le> seconds \<Longrightarrow> seconds \<le> 2147483 \<Longrightarrow>
     snd (set_refresh_interval self seconds) = None \<and>
     refresh_interval (fst (set_refresh_interval self seconds)) = seconds \<and>
     isActive (refresh_timer (fst (set_refresh_interval self seconds))) = (0 < seconds) \<and>
     (0 < seconds \<longrightarrow>
        interval (refresh_timer (fst (set_refresh_interval self seconds))) = seconds * 1000 \<and>
        timeout (fst (set_refresh_interval self seconds)) =
          refresh_page (fst (set_refresh_interval self seconds))) \<and>
     (seconds = 0 \<longrightarrow>
        timeout (fst (set_refresh_interval self seconds)) = fst (set_refresh_interval self seconds)) \<and>
     (fst (set_refresh_interval self seconds))
        \<lparr>refresh_interval := refresh_interval self, refresh_timer := refresh_timer self\<rparr> = self"
  by (cases "seconds \<le> 0")
     (simp_all add: set_refresh_interval_stop set_refresh_interval_start timeout_def)

text \<open>At 5 seconds, on an item whose timer runs with a period of 60 seconds.\<close>

theorem set_refresh_interval_restarts_witness:
  "(0 :: int) \<le> 5 \<and> (5 :: int) \<le> 2147483 \<and>
   snd (set_refresh_interval (fst (set_refresh_interval example_page 60)) 5) = None \<and>
   refresh_interval (fst (set_refresh_interval (fst (set_refresh_interval example_page 60)) 5)) = 5 \<and>
   isActive (refresh_timer (fst (set_refresh_interval (fst (set_refresh_interval example_page 60)) 5))) \<and>
   interval (refresh_timer (fst (set_refresh_interval (fst (set_refresh_interval example_page 60)) 5)))
     = 5000"
proof -
  have a: "(0 :: int) \<le> 5" and b: "(5 :: int) \<le> 2147483" by simp_all
  from set_refresh_interval_restarts [OF a b, of "fst (set_refresh_interval example_page 60)"]
  show ?thesis by simp
qed

text \<open>
  C8 as stated fails for large values: after two calls with 2147484 there is no active
  timer of that period.
\<close>

theorem set_refresh_interval_twice_counterexample:
  "(0 :: int) \<le> 2147484 \<and>
   \<not> isActive (refresh_timer
        (fst (set_refresh_interval (fst (set_refresh_interval example_page 2147484)) 2147484)))"
  by (simp add: set_refresh_interval_overflow)

text \<open>
  C8, amended. For every integer \<open>s\<close>, a second \<^verbatim>\<open>set_refresh_interval(s)\<close> right after the
  first returns the same and leaves the item as the first call left it. The item has one
  timer; for \<open>0 \<le> s \<le> 2147483\<close> it runs after the two calls exactly if \<open>s > 0\<close>, then with
  the period \<open>s * 1000\<close> ms.
\<close>

theorem set_refresh_interval_idempotent:
  "set_refresh_interval (fst (set_refresh_interval self s)) s = set_refresh_interval self s \<and>
   (0 \<le> s \<and> s \<le> 2147483 \<longrightarrow>
      isActive (refresh_timer (fst (set_refresh_interval (fst (set_refresh_interval self s)) s)))
        = (0 < s) \<and>
      (0 < s \<longrightarrow>
         interval (refresh_timer (fst (set_refresh_interval (fst (set_refresh_interval self s)) s)))
           = s * 1000))"
proof -
  consider "s \<le> 0" | "0 < s" "s \<le> 2147483" | "2147483 < s" by linarith
  then show ?thesis
    by cases (simp_all add: set_refresh_interval_stop set_refresh_interval_start
                set_refresh_interval_overflow)
qed

theorem set_refresh_interval_idempotent_witness:
  "(0 :: int) \<le> 5 \<and> (5 :: int) \<le> 2147483 \<and>
   set_refresh_interval (fst (set_refresh_interval example_page 5)) 5 =
     set_refresh_interval example_page 5 \<and>
   isActive (refresh_timer (fst (set_refresh_interval (fst (set_refresh_interval example_page 5)) 5))) \<and>
   interval (refresh_timer (fst (set_refresh_interval (fst (set_refresh_interval example_page 5)) 5)))
     = 5000"
  using set_refresh_interval_idempotent [of example_page 5] by auto


section \<open>The settings dialog\<close>

lemma RefreshSettingsDialog_init_in_range:
  "- 2147483648 \<le> v \<Longrightarrow> v \<le> 2147483647 \<Longrightarrow>
     RefreshSettingsDialog_init v =
       Inr \<lparr>windowTitle = ''Refresh Settings'',
            spin_box = \<lparr>minimum = 0, maximum = 3600,
                        spin_value = (if v < 0 then 0 else if 3600 < v then 3600 else v),
                        suffix = '' seconds''\<rparr>\<rparr>"
  by (simp add: RefreshSettingsDialog_init_def setRange_def setValue_def c_int_def QSpinBox_def
        bound_def)

text \<open>
  C7. For every seed in \<open>[0, 3600]\<close>, the dialog constructed with the seed and confirmed
  with no edit is accepted and \<^verbatim>\<open>get_interval()\<close> returns the seed.
\<close>

theorem dialog_round_trip:
  "0 \<le> seed \<Longrightarrow> seed \<le> 3600 \<Longrightarrow>
     (\<exists>d. RefreshSettingsDialog_init seed = Inr d \<and>
          snd (exec_dialog d [] ClickOk) = Accepted \<and>
          get_interval (fst (exec_dialog d [] ClickOk)) = seed)"
  by (simp add: RefreshSettingsDialog_init_in_range exec_dialog_def get_interval_def)

text \<open>The seed 42.\<close>

theorem dialog_round_trip_witness:
  "(0 :: int) \<le> 42 \<and> (42 :: int) \<le> 3600 \<and>
   (\<exists>d. RefreshSettingsDialog_init 42 = Inr d \<and>
        snd (exec_dialog d [] ClickOk) = Accepted \<and>
        get_interval (fst (exec_dialog d [] ClickOk)) = 42)"
  using dialog_round_trip [of 42] by simp

text \<open>
  The dialog delivers a value of \<open>[0, 3600]\<close>, whatever it was constructed with and
  whatever the user entered.
\<close>

lemma spin_box_ranged_init: "RefreshSettingsDialog_init v = Inr d \<Longrightarrow> spin_box_ranged d"
  by (auto simp: RefreshSettingsDialog_init_def setRange_def setValue_def c_int_def QSpinBox_def
        bound_def spin_box_ranged_def split: if_splits)

lemma spin_box_ranged_user_edit: "spin_box_ranged d \<Longrightarrow> spin_box_ranged (user_edit d v)"
  by (simp add: spin_box_ranged_def user_edit_def bound_def)

lemma spin_box_ranged_edits: "spin_box_ranged d \<Longrightarrow> spin_box_ranged (foldl user_edit d edits)"
  by (induction edits arbitrary: d) (simp_all add: spin_box_ranged_user_edit)

lemma get_interval_range:
  assumes "RefreshSettingsDialog_init v = Inr d"
  shows "0 \<le> get_interval (fst (exec_dialog d edits b)) \<and>
         get_interval (fst (exec_dialog d edits b)) \<le> 3600"
proof -
  have "spin_box_ranged (foldl user_edit d edits)"
    using assms by (intro spin_box_ranged_edits spin_box_ranged_init)
  then show ?thesis
    by (simp add: exec_dialog_def get_interval_def spin_box_ranged_def)
qed

lemma show_refresh_settings_rejected:
  "b \<noteq> ClickOk \<Longrightarrow> fst (show_refresh_settings self edits b) = self"
  by (cases b)
     (simp_all add: show_refresh_settings_def exec_dialog_def split: option.splits sum.splits)

text \<open>
  C6. Whatever the user entered, when the settings dialog is closed by Cancel or by
  closing its window, \<^verbatim>\<open>show_refresh_settings\<close> leaves the whole application state as it
  was. Through the context menu entry the state is the one the menu leaves when no entry
  is triggered: the cancelled dialog adds nothing to it.
\<close>

theorem dialog_cancel_no_mutation:
  "fst (show_refresh_settings self edits ClickCancel) = self \<and>
   fst (show_refresh_settings self edits CloseWindow) = self \<and>
   fst (show_context_menu self hit (Some (AutoRefreshSettings edits ClickCancel)))
     = fst (show_context_menu self hit None) \<and>
   fst (show_context_menu self hit (Some (AutoRefreshSettings edits CloseWindow)))
     = fst (show_context_menu self hit None)"
  by (simp add: show_refresh_settings_rejected show_context_menu_def Let_def
        split: option.splits)

section \<open>The state invariant\<close>

lemma timer_invariant_set:
  "s \<le> 2147483 \<Longrightarrow> timer_invariant (fst (set_refresh_interval p s))"
  by (cases "s \<le> 0")
     (simp_all add: timer_invariant_def set_refresh_interval_stop set_refresh_interval_start)

lemma range_invariant_set:
  "0 \<le> s \<Longrightarrow> s \<le> 3600 \<Longrightarrow> range_invariant (fst (set_refresh_interval p s))"
  by (cases "s \<le> 0")
     (simp_all add: range_invariant_def set_refresh_interval_stop set_refresh_interval_start)

lemma state_invariant_set:
  "0 \<le> s \<Longrightarrow> s \<le> 3600 \<Longrightarrow> state_invariant (fst (set_refresh_interval p s))"
  by (simp add: state_invariant_def timer_invariant_set range_invariant_set)

lemma state_invariant_refresh_page [simp]: "state_invariant (refresh_page p) = state_invariant p"
  by (simp add: state_invariant_def timer_invariant_def range_invariant_def refresh_page_def)

lemma state_invariant_timeout [simp]: "state_invariant (timeout p) = state_invariant p"
  by (simp add: timeout_def)

lemma state_invariant_new: "state_invariant (setPos (WebPageItem_init scr u) x y)"
  by (simp add: state_invariant_def timer_invariant_def range_invariant_def setPos_def
        WebPageItem_init_def QTimer_def)

lemma add_web_page_objects:
  "add_web_page scr objs cv u rnd =
     (objs @ [Some (setPos (WebPageItem_init scr u)
                (randint 0 (int (width cv) div 2) (fst rnd))
                (randint 0 (int (height cv) div 2) (snd rnd)))],
      cv\<lparr>scene := addItem (scene cv) (length objs)\<rparr>, length objs)"
  by (simp add: add_web_page_def Let_def)

lemma list_all_update: "list_all P xs \<Longrightarrow> P x \<Longrightarrow> list_all P (xs[i := x])"
  by (auto simp: list_all_iff dest: set_update_subset_insert [THEN subsetD])

lemma list_all_nth: "list_all P xs \<Longrightarrow> i < length xs \<Longrightarrow> P (xs ! i)"
  by (simp add: list_all_length)

lemma live_None [simp]: "live P None"
  by (simp add: live_def)

lemma live_Some [simp]: "live P (Some p) = P p"
  by (simp add: live_def)

lemma live_map_option: "live P obj \<Longrightarrow> (\<And>p. P p \<Longrightarrow> P (f p)) \<Longrightarrow> live P (map_option f obj)"
  by (cases obj) simp_all

lemma live_update_map:
  assumes "list_all (live P) objs" and "\<And>p. P p \<Longrightarrow> P (f p)"
  shows "list_all (live P) (objs[i := map_option f (objs ! i)])"
proof (cases "i < length objs")
  case True
  with assms(1) have "live P (objs ! i)" by (rule list_all_nth)
  then have "live P (map_option f (objs ! i))" using assms(2) by (rule live_map_option)
  with assms(1) show ?thesis by (rule list_all_update)
next
  case False
  then have "objs[i := map_option f (objs ! i)] = objs"
    by (simp add: not_less list_update_beyond)
  with assms(1) show ?thesis by simp
qed

lemma release_invariant:
  "list_all (live P) (objects self) \<Longrightarrow> list_all (live P) (objects (release self j))"
  by (simp add: release_def list_all_update)

lemma add_new_page_invariant:
  assumes "list_all (live state_invariant) (objects self)"
  shows "list_all (live state_invariant) (objects (add_new_page scr self rnd))"
  using assms by (simp add: add_new_page_def add_web_page_objects state_invariant_new Let_def)

lemma show_refresh_settings_invariant:
  assumes "list_all (live state_invariant) (objects self)"
  shows "list_all (live state_invariant) (objects (fst (show_refresh_settings self edits b)))"
proof (cases "current_page self")
  case None
  with assms show ?thesis by (simp add: show_refresh_settings_def)
next
  case (Some page)
  show ?thesis
  proof (cases "objects self ! page")
    case None
    with Some assms show ?thesis by (simp add: show_refresh_settings_def)
  next
    case cur: (Some cur)
    show ?thesis
    proof (cases "RefreshSettingsDialog_init (refresh_interval cur)")
      case (Inl e)
      with Some cur assms show ?thesis by (simp add: show_refresh_settings_def)
    next
      case (Inr d)
      have r: "0 \<le> get_interval (fst (exec_dialog d edits b))"
              "get_interval (fst (exec_dialog d edits b)) \<le> 3600"
        using get_interval_range [OF Inr] by simp_all
      have "state_invariant
              (fst (set_refresh_interval cur (get_interval (fst (exec_dialog d edits b)))))"
        using r by (rule state_invariant_set)
      with assms Some cur Inr show ?thesis
        by (simp add: show_refresh_settings_def split_beta Let_def list_all_update)
    qed
  qed
qed

lemma show_context_menu_invariant:
  assumes "list_all (live state_invariant) (objects self)"
  shows "list_all (live state_invariant) (objects (fst (show_context_menu self hit choice)))"
proof (cases "itemAt (scene (canvas self)) hit")
  case None
  with assms show ?thesis by (simp add: show_context_menu_def)
next
  case (Some item)
  define st where
    "st = (case current_page self of
             None \<Rightarrow> self\<lparr>current_page := Some item\<rparr>
           | Some j \<Rightarrow> release (self\<lparr>current_page := Some item\<rparr>) j)"
  have b: "list_all (live state_invariant) (objects st)"
    using assms by (simp add: st_def release_invariant split: option.splits)
  have eq: "show_context_menu self hit choice =
      (case choice of
         None \<Rightarrow> (st, None)
       | Some RefreshNow \<Rightarrow>
           (st\<lparr>objects := (objects st)[item := map_option refresh_page (objects st ! item)]\<rparr>,
            None)
       | Some (AutoRefreshSettings edits b) \<Rightarrow> show_refresh_settings st edits b
       | Some ClosePage \<Rightarrow>
           (st\<lparr>canvas := (canvas st)\<lparr>scene := removeItem (scene (canvas st)) item\<rparr>\<rparr>, None))"
    unfolding show_context_menu_def st_def Let_def by (simp add: Some)
  show ?thesis
  proof (cases choice)
    case None
    with b eq show ?thesis by simp
  next
    case c: (Some c)
    show ?thesis
    proof (cases c)
      case RefreshNow
      with b eq c show ?thesis by (simp add: live_update_map)
    next
      case (AutoRefreshSettings edits bt)
      with b eq c show ?thesis by (simp add: show_refresh_settings_invariant)
    next
      case ClosePage
      with b eq c show ?thesis by simp
    qed
  qed
qed

lemma handle_invariant:
  "list_all (live state_invariant) (objects self) \<Longrightarrow>
     list_all (live state_invariant) (objects (handle scr self ev))"
  by (cases ev)
     (simp_all add: add_new_page_invariant show_context_menu_invariant timer_event_def
        live_update_map)

lemma run_invariant:
  "list_all (live state_invariant) (objects self) \<Longrightarrow>
     list_all (live state_invariant) (objects (run scr self evs))"
  unfolding run_def
proof (induction evs arbitrary: self)
  case Nil
  then show ?case by simp
next
  case (Cons ev evs)
  then show ?case by (simp add: handle_invariant del: handle.simps)
qed

text \<open>
  C2. After every sequence of events from the start of the application, that is after
  every sequence of creations, calls of \<^verbatim>\<open>set_refresh_interval\<close> and \<^verbatim>\<open>refresh_page\<close>,
  timer firings and removals the program performs, every page item that exists has its
  refresh interval in \<open>[0, 3600]\<close> and its timer running if and only if the interval is
  positive.
\<close>

theorem refresh_invariant_reachable:
  "list_all (live state_invariant) (objects (run scr (BrowserCanvasApp_init w h) evs))"
  by (rule run_invariant) (simp add: BrowserCanvasApp_init_def)

lemma example_app_eq:
  "example_app =
     \<lparr>objects =
        [Some example_page_refreshing,
         Some (setPos (WebPageItem_init (800, 600) ''https://example.org'') 5 6)],
      canvas = \<lparr>scene = [0, 1], width = 1200, height = 800\<rparr>,
      url_input = [], current_page = Some 0\<rparr>"
  unfolding example_app_def run_def example_events_def example_page_refreshing_def
    example_page_def
  by (simp add: add_new_page_def add_web_page_objects startswith_def BrowserCanvasApp_init_def
        Canvas_init_def addItem_def randint_def show_context_menu_def itemAt_def
        show_refresh_settings_def RefreshSettingsDialog_init_in_range exec_dialog_def
        user_edit_def bound_def get_interval_def set_refresh_interval_start setPos_def
        WebPageItem_init_def QTimer_def Let_def release_def)

text \<open>
  The session of the examples: both pages exist, and the first has an interval of 5
  seconds with a running timer.
\<close>

theorem refresh_invariant_reachable_witness:
  "list_all (live state_invariant) (objects example_app) \<and>
   objects example_app ! 0 = Some example_page_refreshing \<and>
   refresh_interval example_page_refreshing = 5 \<and>
   isActive (refresh_timer example_page_refreshing)"
proof -
  have "list_all (live state_invariant) (objects example_app)"
    unfolding example_app_def by (rule refresh_invariant_reachable)
  then show ?thesis
    by (simp add: example_app_eq) (simp add: example_page_refreshing_def)
qed

section \<open>Adding pages\<close>

lemma add_new_page_prefixed:
  "\<not> startswith (url_input self) [''http://'', ''https://''] \<Longrightarrow>
     add_new_page scr self rnd =
       self\<lparr>objects := objects self @
                [Some (setPos (WebPageItem_init scr (''https://'' @ url_input self))
                   (randint 0 (int (width (canvas self)) div 2) (fst rnd))
                   (randint 0 (int (height (canvas self)) div 2) (snd rnd)))],
             canvas := (canvas self)\<lparr>scene := addItem (scene (canvas self)) (length (objects self))\<rparr>,
             url_input := []\<rparr>"
  by (simp add: add_new_page_def add_web_page_objects)

lemma addItem_member: "item \<in> set (addItem sc item)"
  by (simp add: addItem_def)

text \<open>
  C10. When the text of the URL field starts with neither \<^verbatim>\<open>http://\<close> nor
  \<^verbatim>\<open>https://\<close>, the empty text included, \<^verbatim>\<open>add_new_page\<close> creates one new item, keeps the
  others, gives the new item the URL \<^verbatim>\<open>https://\<close> followed by the text and loads it, puts
  the item into the scene and clears the field.
\<close>

theorem add_new_page_defaults_scheme:
  "\<not> startswith (url_input self) [''http://'', ''https://''] \<Longrightarrow>
     length (objects (add_new_page scr self rnd)) = Suc (length (objects self)) \<and>
     take (length (objects self)) (objects (add_new_page scr self rnd)) = objects self \<and>
     map_option url (objects (add_new_page scr self rnd) ! length (objects self))
       = Some (''https://'' @ url_input self) \<and>
     map_option (loaded \<circ> web_view) (objects (add_new_page scr self rnd) ! length (objects self))
       = Some (''https://'' @ url_input self) \<and>
     length (objects self) \<in> set (scene (canvas (add_new_page scr self rnd))) \<and>
     url_input (add_new_page scr self rnd) = []"
  by (simp add: add_new_page_prefixed addItem_member setPos_def WebPageItem_init_def load_def)

text \<open>The empty field of a new application: the page gets the URL \<^verbatim>\<open>https://\<close>.\<close>

theorem add_new_page_defaults_scheme_witness:
  "\<not> startswith (url_input (BrowserCanvasApp_init 1200 800)) [''http://'', ''https://''] \<and>
   url_input (BrowserCanvasApp_init 1200 800) = [] \<and>
   length (objects (add_new_page (800, 600) (BrowserCanvasApp_init 1200 800) (3, 4))) = 1 \<and>
   map_option url (objects (add_new_page (800, 600) (BrowserCanvasApp_init 1200 800) (3, 4)) ! 0)
     = Some ''https://'' \<and>
   0 \<in> set (scene (canvas (add_new_page (800, 600) (BrowserCanvasApp_init 1200 800) (3, 4)))) \<and>
   url_input (add_new_page (800, 600) (BrowserCanvasApp_init 1200 800) (3, 4)) = []"
proof -
  have h: "\<not> startswith (url_input (BrowserCanvasApp_init 1200 800)) [''http://'', ''https://'']"
    by (simp add: startswith_def BrowserCanvasApp_init_def)
  have e: "url_input (BrowserCanvasApp_init 1200 800) = []"
          "objects (BrowserCanvasApp_init 1200 800) = []"
    by (simp_all add: BrowserCanvasApp_init_def)
  from add_new_page_defaults_scheme [OF h, of "(800, 600)" "(3, 4)"] h show ?thesis
    by (simp add: e)
qed

text \<open>
  C4 as stated fails: \<^verbatim>\<open>Canvas.add_web_page\<close> passes its argument on unchanged, so the
  item made for \<^verbatim>\<open>example.com\<close> has the URL \<^verbatim>\<open>example.com\<close>.
\<close>

theorem add_web_page_counterexample:
  "map_option url
     (fst (add_web_page (800, 600) [] (Canvas_init 1200 800) ''example.com'' (3, 4)) !
      snd (snd (add_web_page (800, 600) [] (Canvas_init 1200 800) ''example.com'' (3, 4))))
     = Some ''example.com'' \<and>
   ''example.com'' \<noteq> ''https://example.com''"
  by (simp add: add_web_page_objects setPos_def WebPageItem_init_def)

text \<open>
  C4, amended. \<^verbatim>\<open>Canvas.add_web_page(u)\<close> produces an item whose stored URL is \<open>u\<close> as
  given and whose initial refresh interval is 0. The scheme is defaulted by the caller:
  \<^verbatim>\<open>add_new_page\<close> with \<^verbatim>\<open>example.com\<close> in the URL field produces an item whose URL is
  \<^verbatim>\<open>https://example.com\<close> and whose initial refresh interval is 0.
\<close>

theorem add_web_page_stores_url:
  "map_option url
     (fst (add_web_page scr objs cv u rnd) ! snd (snd (add_web_page scr objs cv u rnd))) = Some u \<and>
   map_option refresh_interval
     (fst (add_web_page scr objs cv u rnd) ! snd (snd (add_web_page scr objs cv u rnd))) = Some 0 \<and>
   map_option url
     (objects (add_new_page scr (self\<lparr>url_input := ''example.com''\<rparr>) rnd) ! length (objects self))
     = Some ''https://example.com'' \<and>
   map_option refresh_interval
     (objects (add_new_page scr (self\<lparr>url_input := ''example.com''\<rparr>) rnd) ! length (objects self))
     = Some 0"
proof -
  have "\<not> startswith (url_input (self\<lparr>url_input := ''example.com''\<rparr>)) [''http://'', ''https://'']"
    by (simp add: startswith_def)
  then show ?thesis
    by (simp add: add_new_page_prefixed add_web_page_objects setPos_def WebPageItem_init_def)
qed

section \<open>Resizing by the grips\<close>

text \<open>
  What the handler does to the widget two levels above the grip, where there is one: as
  long as the pointer does not pass the opposite corner, it moves the grip's corner to
  the pointer position and keeps the opposite corner.
\<close>

lemma mouseMoveEvent_grandparent:
  "buttons event = {LeftButton} \<Longrightarrow> grip_parent g = Some c \<Longrightarrow> wparent (ws ! c) = Some p \<Longrightarrow>
   p < length ws \<Longrightarrow>
     (\<exists>ws'. mouseMoveEvent ws g event = Inr ws' \<and>
        (corner g = BottomRightCorner \<and>
         x1 (geometry (ws ! p)) \<le> xp (globalPos event) + 1 \<and>
         y1 (geometry (ws ! p)) \<le> yp (globalPos event) + 1 \<longrightarrow>
           topLeft (geometry (ws' ! p)) = topLeft (geometry (ws ! p)) \<and>
           bottomRight (geometry (ws' ! p)) = globalPos event) \<and>
        (corner g = BottomLeftCorner \<and>
         xp (globalPos event) \<le> x2 (geometry (ws ! p)) + 1 \<and>
         y1 (geometry (ws ! p)) \<le> yp (globalPos event) + 1 \<longrightarrow>
           topRight (geometry (ws' ! p)) = topRight (geometry (ws ! p)) \<and>
           bottomLeft (geometry (ws' ! p)) = globalPos event) \<and>
        (corner g = TopRightCorner \<and>
         x1 (geometry (ws ! p)) \<le> xp (globalPos event) + 1 \<and>
         yp (globalPos event) \<le> y2 (geometry (ws ! p)) + 1 \<longrightarrow>
           bottomLeft (geometry (ws' ! p)) = bottomLeft (geometry (ws ! p)) \<and>
           topRight (geometry (ws' ! p)) = globalPos event) \<and>
        (corner g = TopLeftCorner \<and>
         xp (globalPos event) \<le> x2 (geometry (ws ! p)) + 1 \<and>
         yp (globalPos event) \<le> y2 (geometry (ws ! p)) + 1 \<longrightarrow>
           bottomRight (geometry (ws' ! p)) = bottomRight (geometry (ws ! p)) \<and>
           topLeft (geometry (ws' ! p)) = globalPos event))"
  by (cases "corner g")
     (simp_all add: mouseMoveEvent_def setGeometry_def topLeft_def topRight_def bottomLeft_def
        bottomRight_def setBottomRight_def setBottomLeft_def setTopRight_def setTopLeft_def
        QRect_def rect_width_def rect_height_def Let_def max_def)

text \<open>
  The grips of a \<^verbatim>\<open>WebPageItem\<close> have the container as their parent, and the container
  has none: for each of the four grips, a move with the left button held raises
  \<^verbatim>\<open>AttributeError\<close> before any geometry is read.
\<close>

lemma size_grips_parent:
  "g \<in> set (size_grips (WebPageItem_init scr u)) \<Longrightarrow> grip_parent g = Some 0"
  by (simp add: WebPageItem_init_def SizeGrip_init_def) (elim disjE; simp)

lemma container_parent:
  "wparent (widgets (WebPageItem_init scr u) ! container (WebPageItem_init scr u)) = None"
  by (simp add: WebPageItem_init_def QWidget_def adjustSize_def)

lemma mouseMoveEvent_WebPageItem:
  assumes "g \<in> set (size_grips (WebPageItem_init scr u))" and "buttons event = {LeftButton}"
  shows "mouseMoveEvent (widgets (WebPageItem_init scr u)) g event = Inl AttributeError"
proof -
  have p: "grip_parent g = Some 0"
    using assms(1) by (rule size_grips_parent)
  have c: "wparent (widgets (WebPageItem_init scr u) ! 0) = None"
    using container_parent [of scr u] by (simp add: WebPageItem_init_def)
  show ?thesis
    unfolding mouseMoveEvent_def by (simp only: assms(2) p c option.case simp_thms if_True)
qed

text \<open>
  C5 on the code: a move of the bottom-right grip of a page item to the pointer position
  \<open>(300, 200)\<close>, left button held, yields no new geometry but \<^verbatim>\<open>AttributeError\<close>.
\<close>

theorem mouseMoveEvent_raises:
  "mouseMoveEvent (widgets example_page) (size_grips example_page ! 0)
     \<lparr>buttons = {LeftButton}, globalPos = \<lparr>xp = 300, yp = 200\<rparr>\<rparr> = Inl AttributeError \<and>
   corner (size_grips example_page ! 0) = BottomRightCorner"
  by (simp add: mouseMoveEvent_def example_page_def WebPageItem_init_def SizeGrip_init_def
        QWidget_def adjustSize_def)

section \<open>Closing a page\<close>









end
